theory Spec2Isabelle
  imports Main "HOL-Library.Multiset"
begin

section \<open>Python values that reach the handlers\<close>

text \<open>
  A request body parsed by \<^verbatim>\<open>request.get_json\<close> is a Python value built from
  \<^verbatim>\<open>None\<close>, booleans, integers, strings, lists and dictionaries. A dictionary is
  kept as its items in insertion order; \<open>map_of\<close> reads a key. JSON numbers with a
  fraction or an exponent (Python floats) are not part of this model.

  A Python string is a sequence of code points; \<open>char\<close> stands for the code points
  below 256.
\<close>

datatype json = JNull | JBool bool | JInt int | JStr string
  | JArr "json list" | JObj "(string \<times> json) list"

datatype py_exception =
  AttributeError | TypeError | KeyError | OverflowError | OperationalError | NotFound
  | KeyboardInterrupt

text \<open>\<^verbatim>\<open>except Exception\<close> catches every exception class above but
  \<^verbatim>\<open>KeyboardInterrupt\<close>, which derives from \<^verbatim>\<open>BaseException\<close> only.\<close>

definition is_Exception :: "py_exception \<Rightarrow> bool" where
  "is_Exception e = (e \<noteq> KeyboardInterrupt)"

subsection \<open>\<^verbatim>\<open>str.strip()\<close>\<close>

text \<open>\<^verbatim>\<open>str.isspace\<close> on the code points below 256: TAB to CR, FS to US, SPACE,
  NEL and NO-BREAK SPACE.\<close>

definition py_isspace :: "char \<Rightarrow> bool" where
  "py_isspace c = (let n = (of_char c :: nat) in
     (9 \<le> n \<and> n \<le> 13) \<or> (28 \<le> n \<and> n \<le> 31) \<or> n = 32 \<or> n = 133 \<or> n = 160)"

definition py_strip :: "string \<Rightarrow> string" where
  "py_strip s = rev (dropWhile py_isspace (rev (dropWhile py_isspace s)))"

subsection \<open>\<^verbatim>\<open>str()\<close> and \<^verbatim>\<open>repr()\<close>\<close>

definition digit_char :: "nat \<Rightarrow> char" where
  "digit_char n = ''0123456789abcdef'' ! (n mod 16)"

fun str_nat :: "nat \<Rightarrow> string" where
  "str_nat n = (if n < 10 then [digit_char n]
                else str_nat (n div 10) @ [digit_char (n mod 10)])"

declare str_nat.simps [simp del]

definition str_int :: "int \<Rightarrow> string" where
  "str_int i = (if i < 0 then CHR ''-'' # str_nat (nat (- i)) else str_nat (nat i))"

definition hex_escape :: "char \<Rightarrow> string" where
  "hex_escape c = (let n = (of_char c :: nat) in
     [CHR 0x5C, CHR ''x'', digit_char (n div 16), digit_char (n mod 16)])"

text \<open>One character of \<^verbatim>\<open>repr\<close> of a string delimited by the quote \<open>q\<close>.\<close>

definition repr_char :: "char \<Rightarrow> char \<Rightarrow> string" where
  "repr_char q c = (let n = (of_char c :: nat) in
     if c = q \<or> c = CHR 0x5C then [CHR 0x5C, c]
     else if n = 9 then [CHR 0x5C, CHR ''t'']
     else if n = 10 then [CHR 0x5C, CHR ''n'']
     else if n = 13 then [CHR 0x5C, CHR ''r'']
     else if n < 32 \<or> n = 127 then hex_escape c
     else if n < 127 then [c]
     else if n \<le> 160 \<or> n = 173 then hex_escape c
     else [c])"

definition repr_str :: "string \<Rightarrow> string" where
  "repr_str s = (let q = (if CHR 0x27 \<in> set s \<and> CHR 0x22 \<notin> set s then CHR 0x22 else CHR 0x27)
     in q # concat (map (repr_char q) s) @ [q])"

fun py_join :: "string \<Rightarrow> string list \<Rightarrow> string" where
  "py_join sep [] = []"
| "py_join sep [x] = x"
| "py_join sep (x # y # ys) = x @ sep @ py_join sep (y # ys)"

fun py_repr :: "json \<Rightarrow> string" where
  "py_repr JNull = ''None''"
| "py_repr (JBool b) = (if b then ''True'' else ''False'')"
| "py_repr (JInt i) = str_int i"
| "py_repr (JStr s) = repr_str s"
| "py_repr (JArr xs) = ''['' @ py_join '', '' (map py_repr xs) @ '']''"
| "py_repr (JObj kvs) =
     ''{'' @ py_join '', '' (map (\<lambda>(k, v). repr_str k @ '': '' @ py_repr v) kvs) @ ''}''"

definition py_str :: "json \<Rightarrow> string" where
  "py_str v = (case v of JStr s \<Rightarrow> s | _ \<Rightarrow> py_repr v)"

subsection \<open>Truth value, \<^verbatim>\<open>or\<close>, \<^verbatim>\<open>dict.get\<close>, \<^verbatim>\<open>in\<close>, subscript\<close>

fun py_bool :: "json \<Rightarrow> bool" where
  "py_bool JNull = False"
| "py_bool (JBool b) = b"
| "py_bool (JInt i) = (i \<noteq> 0)"
| "py_bool (JStr s) = (s \<noteq> [])"
| "py_bool (JArr xs) = (xs \<noteq> [])"
| "py_bool (JObj kvs) = (kvs \<noteq> [])"

definition py_or :: "json \<Rightarrow> json \<Rightarrow> json" where
  "py_or a b = (if py_bool a then a else b)"

text \<open>\<^verbatim>\<open>data.get(k)\<close>: only a dictionary has the method.\<close>

fun py_get :: "json \<Rightarrow> string \<Rightarrow> py_exception + json" where
  "py_get (JObj kvs) k = Inr (case map_of kvs k of None \<Rightarrow> JNull | Some v \<Rightarrow> v)"
| "py_get _ k = Inl AttributeError"

text \<open>\<^verbatim>\<open>v.strip()\<close>: only a string has the method.\<close>

fun strip_method :: "json \<Rightarrow> py_exception + string" where
  "strip_method (JStr s) = Inr (py_strip s)"
| "strip_method _ = Inl AttributeError"

fun substring :: "string \<Rightarrow> string \<Rightarrow> bool" where
  "substring sub [] = (sub = [])"
| "substring sub (c # cs) = (take (length sub) (c # cs) = sub \<or> substring sub cs)"

text \<open>\<^verbatim>\<open>k in data\<close>: key membership of a dictionary, element membership of a list,
  substring test of a string; the other values are not iterable.\<close>

fun py_in :: "string \<Rightarrow> json \<Rightarrow> py_exception + bool" where
  "py_in k (JObj kvs) = Inr (k \<in> fst ` set kvs)"
| "py_in k (JArr xs) = Inr (JStr k \<in> set xs)"
| "py_in k (JStr s) = Inr (substring k s)"
| "py_in k _ = Inl TypeError"

text \<open>\<^verbatim>\<open>data[k]\<close> with a string \<open>k\<close>.\<close>

fun py_getitem :: "json \<Rightarrow> string \<Rightarrow> py_exception + json" where
  "py_getitem (JObj kvs) k = (case map_of kvs k of None \<Rightarrow> Inl KeyError | Some v \<Rightarrow> Inr v)"
| "py_getitem _ k = Inl TypeError"

section \<open>The posts table\<close>

text \<open>A \<^verbatim>\<open>datetime\<close> is represented by its \<^verbatim>\<open>isoformat()\<close> rendering.\<close>

datatype datetime = DateTime string

fun isoformat :: "datetime \<Rightarrow> string" where
  "isoformat (DateTime s) = s"

record Post =
  id' :: int
  title :: string
  author :: string
  content :: string
  created_at :: "datetime option"

type_synonym table = "Post list"

text \<open>An SQLite \<^verbatim>\<open>INTEGER\<close> is a signed 64-bit number.\<close>

definition in_int64 :: "int \<Rightarrow> bool" where
  "in_int64 i = (- (2 ^ 63) \<le> i \<and> i < 2 ^ 63)"

text \<open>
  \<^verbatim>\<open>s.get(Post, post_id)\<close>: the row with that primary key, \<^verbatim>\<open>None\<close> when no row
  has it. The key is bound as a parameter of the \<^verbatim>\<open>SELECT\<close>, and binding a Python
  integer that does not fit a signed 64-bit number raises \<open>OverflowError\<close>. A stored
  key always fits, so such a key is the key of no row: the lookup raises exactly for
  the keys outside the range, which are found in no table that the engine can hold.
\<close>

definition session_get :: "table \<Rightarrow> int \<Rightarrow> py_exception + Post option" where
  "session_get s post_id =
     (case find (\<lambda>p. id' p = post_id) s of
        Some p \<Rightarrow> Inr (Some p)
      | None \<Rightarrow> if in_int64 post_id then Inr None else Inl OverflowError)"

text \<open>The integer primary key of a new row, as SQLite (the default engine) assigns it:
  one more than the largest key in the table, 1 in an empty table.\<close>

definition next_id :: "table \<Rightarrow> int" where
  "next_id s = (if s = [] then 1 else Max (set (map id' s)) + 1)"

text \<open>\<^verbatim>\<open>s.add(Post(title=..., author=..., content=...))\<close> followed by a flush: the
  engine assigns \<open>id\<close> and the server default \<open>created_at\<close> (the clock reading \<open>now\<close>).\<close>

definition new_post :: "datetime \<Rightarrow> string \<Rightarrow> string \<Rightarrow> string \<Rightarrow> table \<Rightarrow> Post" where
  "new_post now t a c s =
     \<lparr>id' = next_id s, title = t, author = a, content = c, created_at = Some now\<rparr>"

text \<open>Flushing a modified object: \<^verbatim>\<open>UPDATE posts SET ... WHERE id = ?\<close>.\<close>

definition flush_dirty :: "Post \<Rightarrow> table \<Rightarrow> table" where
  "flush_dirty p s = map (\<lambda>q. if id' q = id' p then p else q) s"

text \<open>\<^verbatim>\<open>s.delete(p)\<close>: \<^verbatim>\<open>DELETE FROM posts WHERE id = ?\<close>.\<close>

definition session_delete :: "Post \<Rightarrow> table \<Rightarrow> table" where
  "session_delete p s = filter (\<lambda>q. id' q \<noteq> id' p) s"

text \<open>\<^verbatim>\<open>select(Post).order_by(Post.id.desc())\<close>.\<close>

definition select_by_id_desc :: "table \<Rightarrow> Post list" where
  "select_by_id_desc s = rev (sort_key id' s)"

section \<open>The scoped session\<close>

text \<open>
  The storage engine is outside the program. Its commit and rollback may raise; which
  exception, if any, is the parameter \<open>faults\<close>. A commit is atomic: when it raises,
  nothing of the scope is stored. The calls made on the session are recorded in order.
\<close>

record faults =
  commit_fault :: "py_exception option"
  rollback_fault :: "py_exception option"

datatype event = Commit | Rollback | Close

type_synonym 'a outcome = "(py_exception + 'a) \<times> table \<times> event list"

text \<open>The \<^verbatim>\<open>except Exception: session.rollback(); raise\<close> clause followed by the
  \<^verbatim>\<open>finally: session.close()\<close> clause, for an exception \<open>e\<close> raised in the
  \<^verbatim>\<open>try\<close> block over the stored table \<open>db\<close>.\<close>

definition on_exception :: "faults \<Rightarrow> py_exception \<Rightarrow> table \<Rightarrow> 'a outcome" where
  "on_exception F e db =
     (if is_Exception e then
        (case rollback_fault F of
           None \<Rightarrow> (Inl e, db, [Rollback, Close])
         | Some e' \<Rightarrow> (Inl e', db, [Rollback, Close]))
      else (Inl e, db, [Close]))"

text \<open>\<^verbatim>\<open>with get_session() as s: body\<close>. The body works on the session's view of the
  table and returns a value or raises.\<close>

definition get_session ::
  "faults \<Rightarrow> (table \<Rightarrow> (py_exception + 'a) \<times> table) \<Rightarrow> table \<Rightarrow> 'a outcome" where
  "get_session F body db =
     (case body db of
        (Inl e, s) \<Rightarrow> on_exception F e db
      | (Inr v, s) \<Rightarrow>
          (case commit_fault F of
             None \<Rightarrow> (Inr v, s, [Commit, Close])
           | Some e \<Rightarrow> (case on_exception F e db of (r, d, tr) \<Rightarrow> (r, d, Commit # tr))))"

definition result :: "'a outcome \<Rightarrow> py_exception + 'a" where
  "result out = fst out"

definition stored :: "'a outcome \<Rightarrow> table" where
  "stored out = fst (snd out)"

definition calls :: "'a outcome \<Rightarrow> event list" where
  "calls out = snd (snd out)"

section \<open>Seeding at start-up\<close>

definition seed :: "faults \<Rightarrow> datetime \<Rightarrow> datetime \<Rightarrow> table \<Rightarrow> unit outcome" where
  "seed F now1 now2 db =
     get_session F (\<lambda>s.
       if int (length s) = 0 then
         (let p1 = new_post now1 ''Hello SQLAlchemy'' ''Alice''
                     (''This is your first DB-backed post.'' @ [CHR 0x0A] @ ''It persists in SQLite.'') s;
              p2 = new_post now2 ''Edit & Delete'' ''Bob''
                     ''You can edit or delete this post from the UI below.'' (s @ [p1])
          in (Inr (), s @ [p1, p2]))
       else (Inr (), s)) db"

section \<open>JSON API\<close>

record response =
  status :: nat
  body :: json

definition jsonify :: "json \<Rightarrow> nat \<Rightarrow> response" where
  "jsonify j code = \<lparr>status = code, body = j\<rparr>"

definition post_to_dict :: "Post \<Rightarrow> json" where
  "post_to_dict p = JObj
     [(''id'', JInt (id' p)), (''title'', JStr (title p)), (''author'', JStr (author p)),
      (''content'', JStr (content p)),
      (''created_at'', (case created_at p of Some d \<Rightarrow> JStr (isoformat d) | None \<Rightarrow> JNull))]"

definition not_found :: response where
  "not_found = jsonify (JObj [(''error'', JStr ''Not found'')]) 404"

text \<open>\<^verbatim>\<open>request.get_json(silent=True) or {}\<close>; the argument is \<open>None\<close> when the
  request carries no parsable JSON.\<close>

definition request_data :: "json option \<Rightarrow> json" where
  "request_data j = (case j of None \<Rightarrow> JObj [] | Some d \<Rightarrow> py_or d (JObj []))"

definition api_list_posts :: "faults \<Rightarrow> table \<Rightarrow> response outcome" where
  "api_list_posts F db =
     get_session F (\<lambda>s.
       (Inr (jsonify (JArr (map post_to_dict (select_by_id_desc s))) 200), s)) db"

definition api_get_post :: "faults \<Rightarrow> int \<Rightarrow> table \<Rightarrow> response outcome" where
  "api_get_post F post_id db =
     get_session F (\<lambda>s.
       (case session_get s post_id of
          Inl e \<Rightarrow> (Inl e, s)
        | Inr None \<Rightarrow> (Inr not_found, s)
        | Inr (Some p) \<Rightarrow> (Inr (jsonify (post_to_dict p) 200), s))) db"

text \<open>\<^verbatim>\<open>(data.get(k) or "").strip()\<close>.\<close>

definition create_field :: "json \<Rightarrow> string \<Rightarrow> py_exception + string" where
  "create_field data k =
     (case py_get data k of Inl e \<Rightarrow> Inl e | Inr v \<Rightarrow> strip_method (py_or v (JStr [])))"

definition required_error :: response where
  "required_error = jsonify (JObj [(''error'', JStr ''title, author, content are required'')]) 400"

definition api_create_post :: "faults \<Rightarrow> datetime \<Rightarrow> json option \<Rightarrow> table \<Rightarrow> response outcome" where
  "api_create_post F now j db =
     (let data = request_data j in
      case create_field data ''title'' of Inl e \<Rightarrow> (Inl e, db, []) | Inr t \<Rightarrow>
      case create_field data ''author'' of Inl e \<Rightarrow> (Inl e, db, []) | Inr a \<Rightarrow>
      case create_field data ''content'' of Inl e \<Rightarrow> (Inl e, db, []) | Inr c \<Rightarrow>
      if t = [] \<or> a = [] \<or> c = [] then (Inr required_error, db, [])
      else get_session F (\<lambda>s.
             (let p = new_post now t a c s
              in (Inr (jsonify (post_to_dict p) 201), s @ [p]))) db)"

text \<open>
  One of the three blocks of \<^verbatim>\<open>api_update_post\<close>, for the key \<open>k\<close> and the
  assignment \<open>assign\<close> to the attribute of that name:
  \<^verbatim>\<open>
  if k in data:
      if not str(data[k]).strip():
          return jsonify({"error": k + " cannot be empty"}), 400
      p.k = str(data[k]).strip()
  \<close>
  The result is the object as the block leaves it, and \<open>Some\<close> of how the function
  ends there (a raise or a return), or \<open>None\<close> when control goes on to the next
  statement.
\<close>

definition update_field ::
  "json \<Rightarrow> string \<Rightarrow> (string \<Rightarrow> Post \<Rightarrow> Post) \<Rightarrow> Post \<Rightarrow> (py_exception + response) option \<times> Post" where
  "update_field data k assign p =
     (case py_in k data of
        Inl e \<Rightarrow> (Some (Inl e), p)
      | Inr False \<Rightarrow> (None, p)
      | Inr True \<Rightarrow>
          (case py_getitem data k of
             Inl e \<Rightarrow> (Some (Inl e), p)
           | Inr v \<Rightarrow>
               if py_strip (py_str v) = []
               then (Some (Inr (jsonify (JObj [(''error'', JStr (k @ '' cannot be empty''))]) 400)), p)
               else (None, assign (py_strip (py_str v)) p)))"

definition update_fields :: "json \<Rightarrow> Post \<Rightarrow> (py_exception + response) \<times> Post" where
  "update_fields data p =
     (case update_field data ''title'' (\<lambda>v q. q\<lparr>title := v\<rparr>) p of
        (Some r, p1) \<Rightarrow> (r, p1)
      | (None, p1) \<Rightarrow>
     (case update_field data ''author'' (\<lambda>v q. q\<lparr>author := v\<rparr>) p1 of
        (Some r, p2) \<Rightarrow> (r, p2)
      | (None, p2) \<Rightarrow>
     (case update_field data ''content'' (\<lambda>v q. q\<lparr>content := v\<rparr>) p2 of
        (Some r, p3) \<Rightarrow> (r, p3)
      | (None, p3) \<Rightarrow> (Inr (jsonify (post_to_dict p3) 200), p3))))"

text \<open>The object \<open>p\<close> belongs to the session: whatever was assigned to it before the
  scope ends is flushed when the scope commits.\<close>

definition api_update_post :: "faults \<Rightarrow> int \<Rightarrow> json option \<Rightarrow> table \<Rightarrow> response outcome" where
  "api_update_post F post_id j db =
     (let data = request_data j in
      get_session F (\<lambda>s.
        (case session_get s post_id of
           Inl e \<Rightarrow> (Inl e, s)
         | Inr None \<Rightarrow> (Inr not_found, s)
         | Inr (Some p) \<Rightarrow>
             (case update_fields data p of (r, p') \<Rightarrow> (r, flush_dirty p' s)))) db)"

definition api_delete_post :: "faults \<Rightarrow> int \<Rightarrow> table \<Rightarrow> response outcome" where
  "api_delete_post F post_id db =
     get_session F (\<lambda>s.
       (case session_get s post_id of
          Inl e \<Rightarrow> (Inl e, s)
        | Inr None \<Rightarrow> (Inr not_found, s)
        | Inr (Some p) \<Rightarrow>
            (Inr (jsonify (JObj [(''status'', JStr ''deleted''), (''id'', JInt post_id)]) 200),
             session_delete p s))) db"

section \<open>HTML pages\<close>

text \<open>
  \<^verbatim>\<open>render_template(name, key=value, ...)\<close> is kept as the template's name and the
  values handed to it; \<^verbatim>\<open>redirect(url_for(...))\<close> as the target path.
  \<^verbatim>\<open>abort(404)\<close> raises \<open>NotFound\<close>.
\<close>

datatype ctx = Posts "Post list" | APost Post | Str string | PostDict int string string string

datatype view = Template string "(string \<times> ctx) list" | Redirect string

text \<open>\<^verbatim>\<open>request.form.get(k, "")\<close>.\<close>

definition form_get :: "(string \<times> string) list \<Rightarrow> string \<Rightarrow> string" where
  "form_get form k = (case map_of form k of None \<Rightarrow> [] | Some v \<Rightarrow> v)"

definition index :: "faults \<Rightarrow> table \<Rightarrow> view outcome" where
  "index F db =
     get_session F (\<lambda>s.
       (Inr (Template ''index.html'' [(''posts'', Posts (select_by_id_desc s))]), s)) db"

definition new_post_page :: "table \<Rightarrow> view outcome" where
  "new_post_page db = (Inr (Template ''new_post.html'' []), db, [])"

definition new_post_action ::
  "faults \<Rightarrow> datetime \<Rightarrow> (string \<times> string) list \<Rightarrow> table \<Rightarrow> view outcome" where
  "new_post_action F now form db =
     (let t = py_strip (form_get form ''title'');
          a = py_strip (form_get form ''author'');
          c = py_strip (form_get form ''content'')
      in if t = [] \<or> a = [] \<or> c = [] then
           (Inr (Template ''new_post.html''
                   [(''error'', Str ''All fields are required.''),
                    (''title'', Str t), (''author'', Str a), (''content'', Str c)]), db, [])
         else get_session F (\<lambda>s.
                (let p = new_post now t a c s
                 in (Inr (Redirect (''/posts/'' @ str_int (id' p))), s @ [p]))) db)"

definition post_detail_page :: "faults \<Rightarrow> int \<Rightarrow> table \<Rightarrow> view outcome" where
  "post_detail_page F post_id db =
     get_session F (\<lambda>s.
       (case session_get s post_id of
          Inl e \<Rightarrow> (Inl e, s)
        | Inr None \<Rightarrow> (Inl NotFound, s)
        | Inr (Some p) \<Rightarrow>
            (Inr (Template ''post_detail.html'' [(''post'', APost p)]), s))) db"

definition edit_post_page :: "faults \<Rightarrow> int \<Rightarrow> table \<Rightarrow> view outcome" where
  "edit_post_page F post_id db =
     get_session F (\<lambda>s.
       (case session_get s post_id of
          Inl e \<Rightarrow> (Inl e, s)
        | Inr None \<Rightarrow> (Inl NotFound, s)
        | Inr (Some p) \<Rightarrow>
            (Inr (Template ''edit_post.html'' [(''post'', APost p)]), s))) db"

definition edit_post_action ::
  "faults \<Rightarrow> int \<Rightarrow> (string \<times> string) list \<Rightarrow> table \<Rightarrow> view outcome" where
  "edit_post_action F post_id form db =
     (let t = py_strip (form_get form ''title'');
          a = py_strip (form_get form ''author'');
          c = py_strip (form_get form ''content'')
      in if t = [] \<or> a = [] \<or> c = [] then
           (Inr (Template ''edit_post.html''
                   [(''error'', Str ''All fields are required.''),
                    (''post'', PostDict post_id t a c)]), db, [])
         else get_session F (\<lambda>s.
                (case session_get s post_id of
                   Inl e \<Rightarrow> (Inl e, s)
                 | Inr None \<Rightarrow> (Inl NotFound, s)
                 | Inr (Some p) \<Rightarrow>
                     (Inr (Redirect (''/posts/'' @ str_int post_id)),
                      flush_dirty (p\<lparr>title := t, author := a, content := c\<rparr>) s))) db)"

definition delete_post_action :: "faults \<Rightarrow> int \<Rightarrow> table \<Rightarrow> view outcome" where
  "delete_post_action F post_id db =
     (case get_session F (\<lambda>s.
             (case session_get s post_id of
                Inl e \<Rightarrow> (Inl e, s)
              | Inr None \<Rightarrow> (Inr (), s)
              | Inr (Some p) \<Rightarrow> (Inr (), session_delete p s))) db of
        (Inl e, d, tr) \<Rightarrow> (Inl e, d, tr)
      | (Inr u, d, tr) \<Rightarrow> (Inr (Redirect ''/''), d, tr))"

section \<open>Vocabulary of the request properties\<close>

text \<open>The value a request body gives for the key \<open>k\<close>: a body that is not an object
  has no fields.\<close>

definition body_field :: "json \<Rightarrow> string \<Rightarrow> json option" where
  "body_field data k = (case data of JObj kvs \<Rightarrow> map_of kvs k | _ \<Rightarrow> None)"



definition is_object :: "json \<Rightarrow> bool" where
  "is_object data = (case data of JObj kvs \<Rightarrow> True | _ \<Rightarrow> False)"

text \<open>The value a field has after an update: the trimmed \<^verbatim>\<open>str()\<close> of the body's
  value where the body has the field, the old value otherwise.\<close>

definition field_after :: "json \<Rightarrow> string \<Rightarrow> string \<Rightarrow> string" where
  "field_after data k old =
     (case body_field data k of None \<Rightarrow> old | Some v \<Rightarrow> py_strip (py_str v))"

text \<open>Two scope bodies for the examples: one adds a row and returns a value, the other
  adds the same row and then raises.\<close>

definition add_example_row :: "table \<Rightarrow> (py_exception + nat) \<times> table" where
  "add_example_row s =
     (Inr 7, s @ [new_post (DateTime ''2024-05-05T10:00:00'') ''T'' ''A'' ''C'' s])"

definition add_row_then_raise :: "table \<Rightarrow> (py_exception + nat) \<times> table" where
  "add_row_then_raise s =
     (Inl TypeError, s @ [new_post (DateTime ''2024-05-05T10:00:00'') ''T'' ''A'' ''C'' s])"

section \<open>Example data\<close>

definition no_faults :: faults where
  "no_faults = \<lparr>commit_fault = None, rollback_fault = None\<rparr>"

definition example_table :: table where
  "example_table =
     [\<lparr>id' = 1, title = ''Hello SQLAlchemy'', author = ''Alice'', content = ''first'',
       created_at = Some (DateTime ''2024-01-01T00:00:00'')\<rparr>,
      \<lparr>id' = 3, title = ''Third'', author = ''Carol'', content = ''third'',
       created_at = None\<rparr>,
      \<lparr>id' = 2, title = ''Edit & Delete'', author = ''Bob'', content = ''second'',
       created_at = Some (DateTime ''2024-01-01T00:00:00'')\<rparr>]"

section \<open>Basic facts\<close>

lemma get_session_ok:
  "commit_fault F = None \<Longrightarrow> blk db = (Inr v, s) \<Longrightarrow>
   get_session F blk db = (Inr v, s, [Commit, Close])"
  by (simp add: get_session_def)

lemma find_id_Some: "find (\<lambda>p. id' p = i) s = Some p \<Longrightarrow> id' p = i \<and> p \<in> set s"
  by (induction s) (auto split: if_splits)

lemma find_id_None: "find (\<lambda>p. id' p = i) s = None \<longleftrightarrow> i \<notin> id' ` set s"
  by (induction s) auto

lemma session_get_Some: "session_get s i = Inr (Some p) \<Longrightarrow> id' p = i \<and> p \<in> set s"
  unfolding session_get_def
  by (auto split: option.splits if_splits dest: find_id_Some)

lemma session_get_present:
  "i \<in> id' ` set s \<Longrightarrow> \<exists>p. session_get s i = Inr (Some p)"
  unfolding session_get_def using find_id_None [of i s]
  by (cases "find (\<lambda>p. id' p = i) s") auto

lemma session_get_absent:
  "i \<notin> id' ` set s \<Longrightarrow>
   session_get s i = (if in_int64 i then Inr None else Inl OverflowError)"
  unfolding session_get_def using find_id_None [of i s] by simp

lemma select_sorted: "sorted_wrt (\<lambda>p q. id' q \<le> id' p) (select_by_id_desc s)"
proof -
  have "sorted (map id' (sort_key id' s))" by simp
  then have "sorted_wrt (\<lambda>p q. id' p \<le> id' q) (sort_key id' s)"
    by (simp add: sorted_map)
  then show ?thesis
    by (simp add: select_by_id_desc_def sorted_wrt_rev)
qed

lemma select_mset: "mset (select_by_id_desc s) = mset s"
  by (simp add: select_by_id_desc_def)

section \<open>Listing\<close>

text \<open>
  C5. Whatever rows the table holds, and so whatever insertions and deletions produced
  them, \<^verbatim>\<open>GET /api/posts\<close> answers 200 with the records of some list \<open>ps\<close> of
  posts, the HTML list page hands the same \<open>ps\<close> to its template, \<open>ps\<close> is in
  descending order of \<open>id\<close>, and \<open>ps\<close> holds exactly the rows of the table. The
  engine is assumed to commit the (read-only) scope without error.
\<close>

theorem list_ordered_by_id_desc:
  "commit_fault F = None \<Longrightarrow>
   (\<exists>ps. result (api_list_posts F db) = Inr (jsonify (JArr (map post_to_dict ps)) 200)
        \<and> result (index F db) = Inr (Template ''index.html'' [(''posts'', Posts ps)])
        \<and> sorted_wrt (\<lambda>p q. id' q \<le> id' p) ps
        \<and> mset ps = mset db)"
  by (rule exI [of _ "select_by_id_desc db"])
     (simp add: api_list_posts_def index_def get_session_ok result_def select_sorted select_mset)

theorem list_ordered_by_id_desc_witness:
  "commit_fault no_faults = None \<and>
   (\<exists>ps. result (api_list_posts no_faults example_table)
            = Inr (jsonify (JArr (map post_to_dict ps)) 200)
        \<and> result (index no_faults example_table)
            = Inr (Template ''index.html'' [(''posts'', Posts ps)])
        \<and> sorted_wrt (\<lambda>p q. id' q \<le> id' p) ps
        \<and> mset ps = mset example_table)"
  using list_ordered_by_id_desc [of no_faults example_table] by (simp add: no_faults_def)

lemma session_get_delete:
  "in_int64 (id' p) \<Longrightarrow> session_get (session_delete p s) (id' p) = Inr None"
  by (subst session_get_absent) (auto simp add: session_delete_def)

lemma next_id_fresh: "next_id s \<notin> id' ` set s"
proof
  assume a: "next_id s \<in> id' ` set s"
  then have ne: "s \<noteq> []" by auto
  from a have "next_id s \<in> set (map id' s)" by simp
  then have "next_id s \<le> Max (set (map id' s))" by (intro Max_ge) auto
  with ne show False by (simp add: next_id_def)
qed

lemma session_get_append_new:
  "id' p \<notin> id' ` set s \<Longrightarrow> session_get (s @ [p]) (id' p) = Inr (Some p)"
proof -
  assume "id' p \<notin> id' ` set s"
  then have "find (\<lambda>q. id' q = id' p) (s @ [p]) = Some p"
    by (induction s) auto
  then show ?thesis by (simp add: session_get_def)
qed

lemma request_data_obj: "request_data (Some (JObj kvs)) = JObj kvs"
  by (cases kvs) (simp_all add: request_data_def py_or_def)

lemma create_field_str:
  "map_of kvs k = Some (JStr t) \<Longrightarrow> create_field (JObj kvs) k = Inr (py_strip t)"
  by (cases t) (simp_all add: create_field_def py_or_def py_strip_def)

lemma create_ok:
  assumes "commit_fault F = None"
    and "map_of kvs ''title'' = Some (JStr t)"
    and "map_of kvs ''author'' = Some (JStr a)"
    and "map_of kvs ''content'' = Some (JStr c)"
    and "py_strip t \<noteq> []" "py_strip a \<noteq> []" "py_strip c \<noteq> []"
  shows "api_create_post F now (Some (JObj kvs)) db =
           (Inr (jsonify (post_to_dict (new_post now (py_strip t) (py_strip a) (py_strip c) db)) 201),
            db @ [new_post now (py_strip t) (py_strip a) (py_strip c) db], [Commit, Close])"
  using assms
  by (simp add: api_create_post_def request_data_obj create_field_str get_session_ok Let_def)

section \<open>Creating\<close>

text \<open>
  C4. A \<^verbatim>\<open>POST /api/posts\<close> whose body is an object with string values for
  \<open>title\<close>, \<open>author\<close> and \<open>content\<close>, none blank after trimming, and whose scope
  the engine commits, answers 201 with the record of the new row: the id the engine
  assigned (which no row had before), the three trimmed values, and \<open>created_at\<close> as
  a string, the rendering of the clock reading. That row is appended to the table.
\<close>

theorem create_returns_201_record:
  assumes "commit_fault F = None"
    and "map_of kvs ''title'' = Some (JStr t)"
    and "map_of kvs ''author'' = Some (JStr a)"
    and "map_of kvs ''content'' = Some (JStr c)"
    and "py_strip t \<noteq> []" "py_strip a \<noteq> []" "py_strip c \<noteq> []"
  shows "result (api_create_post F now (Some (JObj kvs)) db) =
           Inr \<lparr>status = 201, body = JObj
             [(''id'', JInt (next_id db)), (''title'', JStr (py_strip t)),
              (''author'', JStr (py_strip a)), (''content'', JStr (py_strip c)),
              (''created_at'', JStr (isoformat now))]\<rparr>
         \<and> next_id db \<notin> id' ` set db
         \<and> stored (api_create_post F now (Some (JObj kvs)) db) =
             db @ [\<lparr>id' = next_id db, title = py_strip t, author = py_strip a,
                    content = py_strip c, created_at = Some now\<rparr>]"
  using assms
  by (simp add: create_ok result_def stored_def jsonify_def post_to_dict_def new_post_def next_id_fresh)

theorem create_returns_201_record_witness:
  "commit_fault no_faults = None
   \<and> map_of [(''title'', JStr ''  A ''), (''author'', JStr ''B''), (''content'', JStr ''C'')] ''title''
        = Some (JStr ''  A '')
   \<and> py_strip ''  A '' \<noteq> [] \<and> py_strip ''B'' \<noteq> [] \<and> py_strip ''C'' \<noteq> []
   \<and> result (api_create_post no_faults (DateTime ''2024-05-05T10:00:00'')
         (Some (JObj [(''title'', JStr ''  A ''), (''author'', JStr ''B''), (''content'', JStr ''C'')])) [])
       = Inr \<lparr>status = 201, body = JObj
             [(''id'', JInt 1), (''title'', JStr ''A''), (''author'', JStr ''B''),
              (''content'', JStr ''C''), (''created_at'', JStr ''2024-05-05T10:00:00'')]\<rparr>"
  using create_returns_201_record [of no_faults
      "[(''title'', JStr ''  A ''), (''author'', JStr ''B''), (''content'', JStr ''C'')]"
      "''  A ''" "''B''" "''C''" "DateTime ''2024-05-05T10:00:00''" "[]"]
  by (simp add: no_faults_def py_strip_def py_isspace_def next_id_def)

text \<open>
  C2. Under the same conditions, the id in the 201 response, given to
  \<^verbatim>\<open>GET /api/posts/{id}\<close> on the table the create left, fetches a record with that
  id, the three trimmed values and a \<open>created_at\<close> that is a string, not null.
\<close>

theorem create_then_get:
  assumes "commit_fault F = None"
    and "map_of kvs ''title'' = Some (JStr t)"
    and "map_of kvs ''author'' = Some (JStr a)"
    and "map_of kvs ''content'' = Some (JStr c)"
    and "py_strip t \<noteq> []" "py_strip a \<noteq> []" "py_strip c \<noteq> []"
  shows "\<exists>i rest ts.
           result (api_create_post F now (Some (JObj kvs)) db) =
             Inr \<lparr>status = 201, body = JObj ((''id'', JInt i) # rest)\<rparr>
         \<and> result (api_get_post F i (stored (api_create_post F now (Some (JObj kvs)) db))) =
             Inr \<lparr>status = 200, body = JObj
               [(''id'', JInt i), (''title'', JStr (py_strip t)),
                (''author'', JStr (py_strip a)), (''content'', JStr (py_strip c)),
                (''created_at'', JStr ts)]\<rparr>"
proof -
  let ?p = "new_post now (py_strip t) (py_strip a) (py_strip c) db"
  have fresh: "id' ?p \<notin> id' ` set db"
    by (simp add: new_post_def next_id_fresh)
  have get: "session_get (db @ [?p]) (id' ?p) = Inr (Some ?p)"
    using fresh by (rule session_get_append_new)
  have "api_get_post F (id' ?p) (db @ [?p]) = (Inr (jsonify (post_to_dict ?p) 200), db @ [?p], [Commit, Close])"
    using assms(1) get by (simp add: api_get_post_def get_session_ok)
  then show ?thesis
    using assms
    by (simp add: create_ok result_def stored_def jsonify_def post_to_dict_def new_post_def)
qed

theorem create_then_get_witness:
  "commit_fault no_faults = None
   \<and> py_strip ''Hi  '' \<noteq> [] \<and> py_strip '' Bob'' \<noteq> [] \<and> py_strip ''text'' \<noteq> []
   \<and> (\<exists>i rest ts.
         result (api_create_post no_faults (DateTime ''2024-05-05T10:00:00'')
           (Some (JObj [(''title'', JStr ''Hi  ''), (''author'', JStr '' Bob''), (''content'', JStr ''text'')]))
           example_table)
           = Inr \<lparr>status = 201, body = JObj ((''id'', JInt i) # rest)\<rparr>
       \<and> result (api_get_post no_faults i (stored (api_create_post no_faults (DateTime ''2024-05-05T10:00:00'')
           (Some (JObj [(''title'', JStr ''Hi  ''), (''author'', JStr '' Bob''), (''content'', JStr ''text'')]))
           example_table)))
           = Inr \<lparr>status = 200, body = JObj
               [(''id'', JInt i), (''title'', JStr ''Hi''), (''author'', JStr ''Bob''),
                (''content'', JStr ''text''), (''created_at'', JStr ts)]\<rparr>)"
  using create_then_get [of no_faults
      "[(''title'', JStr ''Hi  ''), (''author'', JStr '' Bob''), (''content'', JStr ''text'')]"
      "''Hi  ''" "'' Bob''" "''text''" "DateTime ''2024-05-05T10:00:00''" example_table]
  by (simp add: no_faults_def py_strip_def py_isspace_def)

section \<open>Deleting\<close>

text \<open>
  C7, as the code has it. Take an id that fits a signed 64-bit integer and an engine
  that commits. If a row of the table has the id, \<^verbatim>\<open>DELETE /api/posts/{id}\<close> answers
  200 with \<^verbatim>\<open>{"status":"deleted","id":id}\<close>; on the table it leaves,
  \<^verbatim>\<open>GET /api/posts/{id}\<close> answers 404 and the list holds exactly the other rows,
  none with that id. If no row has the id, the delete answers 404 and the table stays
  as it was.
\<close>

theorem delete_post:
  "commit_fault F = None \<Longrightarrow> in_int64 post_id \<Longrightarrow>
   (post_id \<in> id' ` set db \<longrightarrow>
      result (api_delete_post F post_id db) =
        Inr \<lparr>status = 200, body = JObj [(''status'', JStr ''deleted''), (''id'', JInt post_id)]\<rparr>
    \<and> result (api_get_post F post_id (stored (api_delete_post F post_id db))) =
        Inr \<lparr>status = 404, body = JObj [(''error'', JStr ''Not found'')]\<rparr>
    \<and> (\<exists>ps. result (api_list_posts F (stored (api_delete_post F post_id db))) =
                Inr \<lparr>status = 200, body = JArr (map post_to_dict ps)\<rparr>
            \<and> post_id \<notin> id' ` set ps
            \<and> mset ps = filter_mset (\<lambda>p. id' p \<noteq> post_id) (mset db)))
 \<and> (post_id \<notin> id' ` set db \<longrightarrow>
      result (api_delete_post F post_id db) =
        Inr \<lparr>status = 404, body = JObj [(''error'', JStr ''Not found'')]\<rparr>
    \<and> stored (api_delete_post F post_id db) = db)"
proof (intro conjI impI)
  assume F: "commit_fault F = None" and r: "in_int64 post_id"
    and "post_id \<notin> id' ` set db"
  then have "session_get db post_id = Inr None" by (simp add: session_get_absent)
  with F have "api_delete_post F post_id db = (Inr not_found, db, [Commit, Close])"
    by (simp add: api_delete_post_def get_session_ok)
  then show "result (api_delete_post F post_id db) =
        Inr \<lparr>status = 404, body = JObj [(''error'', JStr ''Not found'')]\<rparr>"
    and "stored (api_delete_post F post_id db) = db"
    by (simp_all add: result_def stored_def not_found_def jsonify_def)
next
  assume F: "commit_fault F = None" and r: "in_int64 post_id"
    and "post_id \<in> id' ` set db"
  then obtain p where p: "session_get db post_id = Inr (Some p)"
    using session_get_present [of post_id db] by auto
  then have idp: "id' p = post_id" by (simp add: session_get_Some)
  let ?db = "session_delete p db"
  have del: "api_delete_post F post_id db =
     (Inr (jsonify (JObj [(''status'', JStr ''deleted''), (''id'', JInt post_id)]) 200),
      ?db, [Commit, Close])"
    using F p by (simp add: api_delete_post_def get_session_ok)
  show "result (api_delete_post F post_id db) =
        Inr \<lparr>status = 200, body = JObj [(''status'', JStr ''deleted''), (''id'', JInt post_id)]\<rparr>"
    by (simp add: del result_def jsonify_def)
  have "session_get ?db post_id = Inr None"
    using session_get_delete [of p db] idp r by simp
  then have "api_get_post F post_id ?db = (Inr not_found, ?db, [Commit, Close])"
    using F by (simp add: api_get_post_def get_session_ok)
  then show "result (api_get_post F post_id (stored (api_delete_post F post_id db))) =
        Inr \<lparr>status = 404, body = JObj [(''error'', JStr ''Not found'')]\<rparr>"
    by (simp add: del stored_def result_def not_found_def jsonify_def)
  have "api_list_posts F ?db =
      (Inr (jsonify (JArr (map post_to_dict (select_by_id_desc ?db))) 200), ?db, [Commit, Close])"
    using F by (simp add: api_list_posts_def get_session_ok)
  moreover have "mset (select_by_id_desc ?db) = filter_mset (\<lambda>q. id' q \<noteq> post_id) (mset db)"
    by (simp add: select_mset session_delete_def idp)
  moreover from this have "post_id \<notin> id' ` set (select_by_id_desc ?db)"
    by (metis (mono_tags, lifting) image_iff mem_Collect_eq set_mset_filter set_mset_mset)
  ultimately show "\<exists>ps. result (api_list_posts F (stored (api_delete_post F post_id db))) =
                Inr \<lparr>status = 200, body = JArr (map post_to_dict ps)\<rparr>
            \<and> post_id \<notin> id' ` set ps
            \<and> mset ps = filter_mset (\<lambda>p. id' p \<noteq> post_id) (mset db)"
    by (intro exI [of _ "select_by_id_desc ?db"]) (simp add: del stored_def result_def jsonify_def)
qed

theorem delete_post_witness:
  "commit_fault no_faults = None \<and> in_int64 3 \<and> in_int64 9
   \<and> (3::int) \<in> id' ` set example_table
   \<and> (9::int) \<notin> id' ` set example_table
   \<and> result (api_delete_post no_faults 3 example_table) =
        Inr \<lparr>status = 200, body = JObj [(''status'', JStr ''deleted''), (''id'', JInt 3)]\<rparr>
   \<and> result (api_get_post no_faults 3 (stored (api_delete_post no_faults 3 example_table))) =
        Inr \<lparr>status = 404, body = JObj [(''error'', JStr ''Not found'')]\<rparr>
   \<and> result (api_delete_post no_faults 9 example_table) =
        Inr \<lparr>status = 404, body = JObj [(''error'', JStr ''Not found'')]\<rparr>"
  using delete_post [of no_faults 3 example_table] delete_post [of no_faults 9 example_table]
  by (simp add: no_faults_def example_table_def in_int64_def)

text \<open>
  C7 as stated fails: no row has the id \<open>2 ^ 63\<close>, which the route's \<^verbatim>\<open>int\<close>
  converter accepts, yet binding it raises \<open>OverflowError\<close>; the scope rolls back and
  the request ends in a server error, not in the 404 response.
\<close>

theorem delete_absent_id_not_404_counterexample:
  "(9223372036854775808::int) \<notin> id' ` set example_table
   \<and> result (api_delete_post no_faults 9223372036854775808 example_table) = Inl OverflowError
   \<and> result (api_delete_post no_faults 9223372036854775808 example_table) \<noteq>
       Inr \<lparr>status = 404, body = JObj [(''error'', JStr ''Not found'')]\<rparr>
   \<and> calls (api_delete_post no_faults 9223372036854775808 example_table) = [Rollback, Close]"
proof -
  have a: "(9223372036854775808::int) \<notin> id' ` set example_table"
    by (simp add: example_table_def)
  have "session_get example_table 9223372036854775808 = Inl OverflowError"
    by (subst session_get_absent [OF a]) (simp add: in_int64_def)
  then have "api_delete_post no_faults 9223372036854775808 example_table =
               (Inl OverflowError, example_table, [Rollback, Close])"
    by (simp add: api_delete_post_def get_session_def on_exception_def is_Exception_def
          no_faults_def)
  with a show ?thesis
    by (simp add: result_def calls_def)
qed

section \<open>Rejected creates\<close>







section \<open>Updating\<close>

lemma find_flush_dirty:
  "find (\<lambda>q. id' q = i) s = Some p \<Longrightarrow> id' p' = i \<Longrightarrow>
   find (\<lambda>q. id' q = i) (flush_dirty p' s) = Some p'"
  unfolding flush_dirty_def by (induction s) (auto split: if_splits)

lemma find_flush_dirty_other:
  "i \<noteq> id' p' \<Longrightarrow>
   find (\<lambda>q. id' q = i) (flush_dirty p' s) = find (\<lambda>q. id' q = i) s"
  unfolding flush_dirty_def by (induction s) auto

lemma session_get_find:
  "session_get s i = Inr (Some p) \<longleftrightarrow> find (\<lambda>q. id' q = i) s = Some p"
  by (auto simp: session_get_def split: option.splits)

lemma flush_dirty_get:
  "session_get s i = Inr (Some p) \<Longrightarrow> id' p' = i \<Longrightarrow>
   session_get (flush_dirty p' s) i = Inr (Some p')"
  by (simp add: session_get_find find_flush_dirty)

lemma flush_dirty_get_other:
  "i \<noteq> id' p' \<Longrightarrow> session_get (flush_dirty p' s) i = session_get s i"
  by (simp add: session_get_def find_flush_dirty_other)

lemma flush_dirty_ids: "map id' (flush_dirty p' s) = map id' s"
  unfolding flush_dirty_def by (induction s) auto

lemma update_field_obj:
  "update_field (JObj kvs) k assign p =
     (case map_of kvs k of
        None \<Rightarrow> (None, p)
      | Some v \<Rightarrow>
          if py_strip (py_str v) = []
          then (Some (Inr (jsonify (JObj [(''error'', JStr (k @ '' cannot be empty''))]) 400)), p)
          else (None, assign (py_strip (py_str v)) p))"
proof (cases "map_of kvs k")
  case None
  then have "k \<notin> fst ` set kvs" by (simp add: map_of_eq_None_iff)
  with None show ?thesis by (simp add: update_field_def)
next
  case (Some v)
  then have "k \<in> fst ` set kvs" by (metis map_of_eq_None_iff option.distinct(1))
  with Some show ?thesis by (simp add: update_field_def)
qed

lemma update_field_non_obj:
  assumes "\<not> is_object data"
  shows "update_field data k assign p = (None, p)
       \<or> (\<exists>e. update_field data k assign p = (Some (Inl e), p))"
  using assms
  by (cases data) (auto simp: update_field_def is_object_def split: bool.splits)

lemma update_fields_non_obj:
  assumes "\<not> is_object data"
  shows "update_fields data p = (Inr (jsonify (post_to_dict p) 200), p)
       \<or> (\<exists>e. update_fields data p = (Inl e, p))"
proof -
  note u = update_field_non_obj [OF assms]
  from u [of "''title''" "\<lambda>v q. q\<lparr>title := v\<rparr>" p]
       u [of "''author''" "\<lambda>v q. q\<lparr>author := v\<rparr>" p]
       u [of "''content''" "\<lambda>v q. q\<lparr>content := v\<rparr>" p]
  show ?thesis
    by (auto simp: update_fields_def)
qed

lemma update_fields_obj:
  assumes "\<forall>k \<in> {''title'', ''author'', ''content''}. \<forall>v.
             map_of kvs k = Some v \<longrightarrow> py_strip (py_str v) \<noteq> []"
  shows "update_fields (JObj kvs) p =
           (Inr (jsonify (post_to_dict
              (p\<lparr>title := field_after (JObj kvs) ''title'' (title p),
                 author := field_after (JObj kvs) ''author'' (author p),
                 content := field_after (JObj kvs) ''content'' (content p)\<rparr>)) 200),
            p\<lparr>title := field_after (JObj kvs) ''title'' (title p),
              author := field_after (JObj kvs) ''author'' (author p),
              content := field_after (JObj kvs) ''content'' (content p)\<rparr>)"
proof -
  from assms have
    t: "\<And>v. map_of kvs ''title'' = Some v \<Longrightarrow> py_strip (py_str v) \<noteq> []" and
    a: "\<And>v. map_of kvs ''author'' = Some v \<Longrightarrow> py_strip (py_str v) \<noteq> []" and
    c: "\<And>v. map_of kvs ''content'' = Some v \<Longrightarrow> py_strip (py_str v) \<noteq> []"
    by simp_all
  show ?thesis
    by (cases "map_of kvs ''title''"; cases "map_of kvs ''author''";
        cases "map_of kvs ''content''")
       (simp_all add: update_fields_def update_field_obj field_after_def body_field_def t a c)
qed

text \<open>
  C6. Take a \<^verbatim>\<open>PUT /api/posts/{id}\<close> for an id that a row \<open>p\<close> has, a body whose
  present fields among \<open>title\<close>, \<open>author\<close>, \<open>content\<close> are all non-blank after
  \<^verbatim>\<open>str()\<close> and trimming, and an engine that commits. Afterwards the row fetched by
  that id has the trimmed value of each field the body gives, the old value of each
  field it does not give, and the \<open>id\<close> and \<open>created_at\<close> of \<open>p\<close>; every other id
  fetches what it did before; the table has the same ids in the same order. When the
  body is an object the answer is 200 with the record of the updated row.
\<close>

theorem update_changes_only_present_fields:
  assumes "commit_fault F = None"
    and "session_get db post_id = Inr (Some p)"
    and "\<forall>k \<in> {''title'', ''author'', ''content''}. \<forall>v.
           body_field (request_data j) k = Some v \<longrightarrow> py_strip (py_str v) \<noteq> []"
  shows "session_get (stored (api_update_post F post_id j db)) post_id =
           Inr (Some \<lparr>id' = id' p,
                 title = field_after (request_data j) ''title'' (title p),
                 author = field_after (request_data j) ''author'' (author p),
                 content = field_after (request_data j) ''content'' (content p),
                 created_at = created_at p\<rparr>)
       \<and> (\<forall>i. i \<noteq> post_id \<longrightarrow>
             session_get (stored (api_update_post F post_id j db)) i = session_get db i)
       \<and> map id' (stored (api_update_post F post_id j db)) = map id' db
       \<and> (is_object (request_data j) \<longrightarrow>
             result (api_update_post F post_id j db) =
               Inr \<lparr>status = 200, body = post_to_dict
                 \<lparr>id' = id' p,
                  title = field_after (request_data j) ''title'' (title p),
                  author = field_after (request_data j) ''author'' (author p),
                  content = field_after (request_data j) ''content'' (content p),
                  created_at = created_at p\<rparr>\<rparr>)"
proof (cases "is_object (request_data j)")
  case True
  then obtain kvs where d: "request_data j = JObj kvs"
    by (cases "request_data j") (simp_all add: is_object_def)
  define q where "q = \<lparr>id' = id' p,
                 title = field_after (JObj kvs) ''title'' (title p),
                 author = field_after (JObj kvs) ''author'' (author p),
                 content = field_after (JObj kvs) ''content'' (content p),
                 created_at = created_at p\<rparr>"
  have idq: "id' q = post_id"
    using assms(2) by (simp add: q_def session_get_Some)
  have q: "p\<lparr>title := field_after (JObj kvs) ''title'' (title p),
             author := field_after (JObj kvs) ''author'' (author p),
             content := field_after (JObj kvs) ''content'' (content p)\<rparr> = q"
    by (simp add: q_def)
  from assms(3) have "\<forall>k \<in> {''title'', ''author'', ''content''}. \<forall>v.
             map_of kvs k = Some v \<longrightarrow> py_strip (py_str v) \<noteq> []"
    by (simp add: d body_field_def)
  then have uf: "update_fields (JObj kvs) p = (Inr (jsonify (post_to_dict q) 200), q)"
    using update_fields_obj [of kvs p] unfolding q by blast
  have out: "api_update_post F post_id j db =
               (Inr (jsonify (post_to_dict q) 200), flush_dirty q db, [Commit, Close])"
    using assms(1,2) uf by (simp add: api_update_post_def d get_session_ok)
  have g1: "session_get (flush_dirty q db) post_id = Inr (Some q)"
    using assms(2) idq by (rule flush_dirty_get)
  have g2: "\<And>i. i \<noteq> post_id \<Longrightarrow> session_get (flush_dirty q db) i = session_get db i"
    using idq flush_dirty_get_other [of _ q db] by simp
  have "session_get (stored (api_update_post F post_id j db)) post_id = Inr (Some q)"
    by (simp add: out stored_def g1)
  moreover have "\<forall>i. i \<noteq> post_id \<longrightarrow>
             session_get (stored (api_update_post F post_id j db)) i = session_get db i"
    by (simp add: out stored_def g2)
  moreover have "map id' (stored (api_update_post F post_id j db)) = map id' db"
    by (simp add: out stored_def flush_dirty_ids)
  moreover have "result (api_update_post F post_id j db) =
               Inr \<lparr>status = 200, body = post_to_dict q\<rparr>"
    by (simp add: out result_def jsonify_def)
  ultimately show ?thesis
    unfolding d q_def by blast
next
  case False
  have idp: "id' p = post_id"
    using assms(2) by (simp add: session_get_Some)
  from False have bf: "\<And>k. body_field (request_data j) k = None"
    by (cases "request_data j") (simp_all add: body_field_def is_object_def)
  have same: "\<lparr>id' = id' p,
                 title = field_after (request_data j) ''title'' (title p),
                 author = field_after (request_data j) ''author'' (author p),
                 content = field_after (request_data j) ''content'' (content p),
                 created_at = created_at p\<rparr> = p"
    by (simp add: field_after_def bf)
  have g1: "session_get (flush_dirty p db) post_id = Inr (Some p)"
    using assms(2) idp by (rule flush_dirty_get)
  have g2: "\<And>i. i \<noteq> post_id \<Longrightarrow> session_get (flush_dirty p db) i = session_get db i"
    using idp flush_dirty_get_other [of _ p db] by simp
  from update_fields_non_obj [OF False, of p]
  have "stored (api_update_post F post_id j db) = flush_dirty p db
      \<or> stored (api_update_post F post_id j db) = db"
  proof
    assume "update_fields (request_data j) p = (Inr (jsonify (post_to_dict p) 200), p)"
    then show ?thesis
      using assms(1,2) by (simp add: api_update_post_def get_session_ok stored_def)
  next
    assume "\<exists>e. update_fields (request_data j) p = (Inl e, p)"
    then obtain e where "update_fields (request_data j) p = (Inl e, p)" ..
    then show ?thesis
      using assms(2)
      by (simp add: api_update_post_def get_session_def on_exception_def stored_def
               split: option.splits)
  qed
  then show ?thesis
    unfolding same using g1 g2 assms(2) False
    by (auto simp: flush_dirty_ids)
qed

theorem update_changes_only_present_fields_witness:
  "commit_fault no_faults = None
   \<and> session_get example_table 3 =
       Inr (Some \<lparr>id' = 3, title = ''Third'', author = ''Carol'', content = ''third'',
             created_at = None\<rparr>)
   \<and> session_get (stored (api_update_post no_faults 3
         (Some (JObj [(''author'', JStr '' Dave ''), (''content'', JInt 7)])) example_table)) 3 =
       Inr (Some \<lparr>id' = 3, title = ''Third'', author = ''Dave'', content = ''7'',
             created_at = None\<rparr>)
   \<and> session_get (stored (api_update_post no_faults 3
         (Some (JObj [(''author'', JStr '' Dave ''), (''content'', JInt 7)])) example_table)) 1 =
       session_get example_table 1"
proof -
  have s: "py_strip (py_str (JStr '' Dave '')) = ''Dave''" "py_strip (py_str (JInt 7)) = ''7''"
    by (simp_all add: py_strip_def py_isspace_def py_str_def str_int_def str_nat.simps
          digit_char_def)
  have g: "session_get example_table 3 =
       Inr (Some \<lparr>id' = 3, title = ''Third'', author = ''Carol'', content = ''third'',
             created_at = None\<rparr>)"
    by (simp add: session_get_def example_table_def)
  have h: "\<forall>k \<in> {''title'', ''author'', ''content''}. \<forall>v.
           body_field (request_data (Some (JObj [(''author'', JStr '' Dave ''), (''content'', JInt 7)]))) k
             = Some v \<longrightarrow> py_strip (py_str v) \<noteq> []"
    using s by (auto simp: request_data_obj body_field_def)
  have f: "commit_fault no_faults = None" by (simp add: no_faults_def)
  from update_changes_only_present_fields [OF f g h] g f s
  show ?thesis
    by (simp add: request_data_obj field_after_def body_field_def)
qed

text \<open>
  C1 fails on the code. The three fields are checked and assigned one after the other
  inside the scope, and the 400 response of a later field is an ordinary return, which
  commits. With \<^verbatim>\<open>{"title": "New", "author": ""}\<close> on post 1 the answer is 400
  (\<open>author cannot be empty\<close>) and the stored title of post 1 is now \<open>New\<close>.
\<close>

theorem update_blank_after_valid_field_is_written:
  "result (api_update_post no_faults 1
      (Some (JObj [(''title'', JStr ''New''), (''author'', JStr [])])) example_table) =
     Inr \<lparr>status = 400, body = JObj [(''error'', JStr ''author cannot be empty'')]\<rparr>
   \<and> session_get example_table 1 =
       Inr (Some \<lparr>id' = 1, title = ''Hello SQLAlchemy'', author = ''Alice'', content = ''first'',
             created_at = Some (DateTime ''2024-01-01T00:00:00'')\<rparr>)
   \<and> session_get (stored (api_update_post no_faults 1
        (Some (JObj [(''title'', JStr ''New''), (''author'', JStr [])])) example_table)) 1 =
       Inr (Some \<lparr>id' = 1, title = ''New'', author = ''Alice'', content = ''first'',
             created_at = Some (DateTime ''2024-01-01T00:00:00'')\<rparr>)
   \<and> calls (api_update_post no_faults 1
        (Some (JObj [(''title'', JStr ''New''), (''author'', JStr [])])) example_table) =
       [Commit, Close]"
proof -
  have g: "session_get example_table 1 =
       Inr (Some \<lparr>id' = 1, title = ''Hello SQLAlchemy'', author = ''Alice'', content = ''first'',
             created_at = Some (DateTime ''2024-01-01T00:00:00'')\<rparr>)"
    by (simp add: session_get_def example_table_def)
  have s: "py_strip (py_str (JStr ''New'')) = ''New''" "py_strip (py_str (JStr [])) = []"
    by (simp_all add: py_strip_def py_isspace_def py_str_def)
  have u: "update_fields (JObj [(''title'', JStr ''New''), (''author'', JStr [])])
             \<lparr>id' = 1, title = ''Hello SQLAlchemy'', author = ''Alice'', content = ''first'',
              created_at = Some (DateTime ''2024-01-01T00:00:00'')\<rparr> =
           (Inr (jsonify (JObj [(''error'', JStr ''author cannot be empty'')]) 400),
            \<lparr>id' = 1, title = ''New'', author = ''Alice'', content = ''first'',
             created_at = Some (DateTime ''2024-01-01T00:00:00'')\<rparr>)"
    by (simp add: update_fields_def update_field_obj s)
  have out: "api_update_post no_faults 1
        (Some (JObj [(''title'', JStr ''New''), (''author'', JStr [])])) example_table =
      (Inr (jsonify (JObj [(''error'', JStr ''author cannot be empty'')]) 400),
       flush_dirty \<lparr>id' = 1, title = ''New'', author = ''Alice'', content = ''first'',
             created_at = Some (DateTime ''2024-01-01T00:00:00'')\<rparr> example_table,
       [Commit, Close])"
    by (simp add: api_update_post_def request_data_obj g u get_session_def no_faults_def)
  show ?thesis
    unfolding out
    by (simp add: result_def stored_def calls_def jsonify_def g)
       (simp add: session_get_def flush_dirty_def example_table_def)
qed

section \<open>Properties of the scoped session\<close>

lemma get_session_raise:
  "blk db = (Inl e, s) \<Longrightarrow> get_session F blk db = on_exception F e db"
  by (simp add: get_session_def)

lemma get_session_commit_raise:
  "blk db = (Inr v, s) \<Longrightarrow> commit_fault F = Some e \<Longrightarrow>
   get_session F blk db =
     (case on_exception F e db of (r, d, tr) \<Rightarrow> (r, d, Commit # tr))"
  by (simp add: get_session_def)

lemma on_exception_cases:
  "on_exception F e db =
     (if is_Exception e
      then (Inl (case rollback_fault F of None \<Rightarrow> e | Some e' \<Rightarrow> e'), db, [Rollback, Close])
      else (Inl e, db, [Close]))"
  by (simp add: on_exception_def split: option.splits)

lemma get_session_stored:
  "stored (get_session F blk db) = db \<or> stored (get_session F blk db) = snd (blk db)"
proof (cases "blk db")
  case (Pair r s)
  show ?thesis
  proof (cases r)
    case (Inl e)
    with Pair show ?thesis
      by (simp add: get_session_raise on_exception_cases stored_def)
  next
    case (Inr v)
    with Pair show ?thesis
      by (cases "commit_fault F")
         (simp_all add: get_session_ok get_session_commit_raise on_exception_cases stored_def)
  qed
qed

lemma get_session_closed:
  "last (calls (get_session F blk db)) = Close
   \<and> count_list (calls (get_session F blk db)) Close = 1"
proof (cases "blk db")
  case (Pair r s)
  show ?thesis
  proof (cases r)
    case (Inl e)
    with Pair show ?thesis
      by (simp add: get_session_raise on_exception_cases calls_def)
  next
    case (Inr v)
    with Pair show ?thesis
      by (cases "commit_fault F")
         (simp_all add: get_session_ok get_session_commit_raise on_exception_cases calls_def)
  qed
qed

lemma get_session_failed_unchanged:
  "result (get_session F blk db) = Inl e \<Longrightarrow> stored (get_session F blk db) = db"
proof (cases "blk db")
  case (Pair r s)
  assume f: "result (get_session F blk db) = Inl e"
  show ?thesis
  proof (cases r)
    case (Inl e0)
    with Pair show ?thesis
      by (simp add: get_session_raise on_exception_cases stored_def)
  next
    case (Inr v)
    with Pair f show ?thesis
      by (cases "commit_fault F")
         (simp_all add: get_session_ok get_session_commit_raise on_exception_cases stored_def
            result_def)
  qed
qed

text \<open>
  C9, as the code has it, for every body \<open>blk\<close> of a \<^verbatim>\<open>with get_session()\<close> scope,
  every table and every behaviour of the engine.
  \<^item> When the body completes and the commit does not raise, commit and close are
    called, the caller gets the body's value and the table is as the body left it.
  \<^item> Whenever the caller gets an exception, whether raised by the body or by the
    commit, the table is as it was before the scope.
  \<^item> When the body raises an \<^verbatim>\<open>Exception\<close>, rollback is called and commit is not,
    and the caller gets that same exception provided the rollback does not raise; when
    the rollback raises, the caller gets the rollback's exception.
  \<^item> When the body raises an exception that is not an \<^verbatim>\<open>Exception\<close>, rollback is
    not called and the caller gets that exception.
  \<^item> When the commit raises an \<^verbatim>\<open>Exception\<close>, rollback is called after it.
  \<^item> On every path close is called exactly once, as the last call.
\<close>

theorem get_session_scope:
  "(\<forall>v s. blk db = (Inr v, s) \<longrightarrow> commit_fault F = None \<longrightarrow>
        result (get_session F blk db) = Inr v
      \<and> stored (get_session F blk db) = s
      \<and> calls (get_session F blk db) = [Commit, Close])
 \<and> (\<forall>e. result (get_session F blk db) = Inl e \<longrightarrow> stored (get_session F blk db) = db)
 \<and> (\<forall>e s. blk db = (Inl e, s) \<longrightarrow> is_Exception e \<longrightarrow>
        calls (get_session F blk db) = [Rollback, Close]
      \<and> (rollback_fault F = None \<longrightarrow> result (get_session F blk db) = Inl e)
      \<and> (\<forall>e'. rollback_fault F = Some e' \<longrightarrow> result (get_session F blk db) = Inl e'))
 \<and> (\<forall>e s. blk db = (Inl e, s) \<longrightarrow> \<not> is_Exception e \<longrightarrow>
        calls (get_session F blk db) = [Close]
      \<and> result (get_session F blk db) = Inl e)
 \<and> (\<forall>v s e. blk db = (Inr v, s) \<longrightarrow> commit_fault F = Some e \<longrightarrow> is_Exception e \<longrightarrow>
        calls (get_session F blk db) = [Commit, Rollback, Close]
      \<and> (rollback_fault F = None \<longrightarrow> result (get_session F blk db) = Inl e))
 \<and> last (calls (get_session F blk db)) = Close
 \<and> count_list (calls (get_session F blk db)) Close = 1"
proof (intro conjI allI impI)
  fix v s
  assume "blk db = (Inr v, s)" and "commit_fault F = None"
  then have "get_session F blk db = (Inr v, s, [Commit, Close])"
    by (simp add: get_session_ok)
  then show "result (get_session F blk db) = Inr v"
    and "stored (get_session F blk db) = s"
    and "calls (get_session F blk db) = [Commit, Close]"
    by (simp_all add: result_def stored_def calls_def)
next
  fix e
  assume "result (get_session F blk db) = Inl e"
  then show "stored (get_session F blk db) = db"
    by (rule get_session_failed_unchanged)
next
  fix e s
  assume b: "blk db = (Inl e, s)" and ex: "is_Exception e"
  then have g: "get_session F blk db =
      (Inl (case rollback_fault F of None \<Rightarrow> e | Some e' \<Rightarrow> e'), db, [Rollback, Close])"
    by (simp add: get_session_raise on_exception_cases)
  show "calls (get_session F blk db) = [Rollback, Close]"
    by (simp add: g calls_def)
  show "result (get_session F blk db) = Inl e" if "rollback_fault F = None"
    using that by (simp add: g result_def)
  show "result (get_session F blk db) = Inl e'" if "rollback_fault F = Some e'" for e'
    using that by (simp add: g result_def)
next
  fix e s
  assume "blk db = (Inl e, s)" and "\<not> is_Exception e"
  then have g: "get_session F blk db = (Inl e, db, [Close])"
    by (simp add: get_session_raise on_exception_cases)
  show "calls (get_session F blk db) = [Close]" by (simp add: g calls_def)
  show "result (get_session F blk db) = Inl e" by (simp add: g result_def)
next
  fix v s e
  assume "blk db = (Inr v, s)" and "commit_fault F = Some e" and "is_Exception e"
  then have g: "get_session F blk db =
      (Inl (case rollback_fault F of None \<Rightarrow> e | Some e' \<Rightarrow> e'), db, [Commit, Rollback, Close])"
    by (simp add: get_session_commit_raise on_exception_cases)
  show "calls (get_session F blk db) = [Commit, Rollback, Close]"
    by (simp add: g calls_def)
  show "result (get_session F blk db) = Inl e" if "rollback_fault F = None"
    using that by (simp add: g result_def)
next
  show "last (calls (get_session F blk db)) = Close"
    and "count_list (calls (get_session F blk db)) Close = 1"
    using get_session_closed [of F blk db] by simp_all
qed

theorem get_session_scope_witness:
  "add_example_row [] =
     (Inr 7, [\<lparr>id' = 1, title = ''T'', author = ''A'', content = ''C'',
               created_at = Some (DateTime ''2024-05-05T10:00:00'')\<rparr>])
   \<and> commit_fault no_faults = None
   \<and> result (get_session no_faults add_example_row []) = Inr 7
   \<and> stored (get_session no_faults add_example_row []) =
       [\<lparr>id' = 1, title = ''T'', author = ''A'', content = ''C'',
         created_at = Some (DateTime ''2024-05-05T10:00:00'')\<rparr>]
   \<and> is_Exception TypeError \<and> rollback_fault no_faults = None
   \<and> result (get_session no_faults add_row_then_raise []) = Inl TypeError
   \<and> stored (get_session no_faults add_row_then_raise []) = []
   \<and> calls (get_session no_faults add_row_then_raise []) = [Rollback, Close]"
  using get_session_scope [of add_example_row "[]" no_faults]
        get_session_scope [of add_row_then_raise "[]" no_faults]
  by (simp add: add_example_row_def add_row_then_raise_def new_post_def next_id_def
        no_faults_def is_Exception_def)

text \<open>
  C9 as stated fails where the rollback itself raises: the body raised \<open>TypeError\<close>,
  the rollback raises \<open>OperationalError\<close>, and that is the exception the caller gets,
  not the one raised inside the scope (the session is closed all the same).
\<close>

theorem rollback_failure_replaces_exception_counterexample:
  "add_row_then_raise example_table =
     (Inl TypeError,
      example_table @
        [new_post (DateTime ''2024-05-05T10:00:00'') ''T'' ''A'' ''C'' example_table])
   \<and> result (get_session \<lparr>commit_fault = None, rollback_fault = Some OperationalError\<rparr>
        add_row_then_raise example_table) = Inl OperationalError
   \<and> result (get_session \<lparr>commit_fault = None, rollback_fault = Some OperationalError\<rparr>
        add_row_then_raise example_table) \<noteq> Inl TypeError
   \<and> calls (get_session \<lparr>commit_fault = None, rollback_fault = Some OperationalError\<rparr>
        add_row_then_raise example_table) = [Rollback, Close]"
  by (simp add: add_row_then_raise_def get_session_def on_exception_def is_Exception_def
        result_def calls_def)

section \<open>Seeding\<close>

lemma session_get_empty:
  "session_get [] i = (if in_int64 i then Inr None else Inl OverflowError)"
  by (simp add: session_get_def)

lemma stored_empty:
  "snd (blk []) = [] \<Longrightarrow> stored (get_session F blk []) = []"
  using get_session_stored [of F blk "[]"] by auto

lemma stored_at_most_one:
  "length (snd (blk [])) \<le> 1 \<Longrightarrow> length (stored (get_session F blk [])) \<le> 1"
  using get_session_stored [of F blk "[]"] by auto

lemma stored_unchanged:
  "snd (blk db) = db \<Longrightarrow> stored (get_session F blk db) = db"
  using get_session_stored [of F blk db] by auto

lemma seed_non_empty: "db \<noteq> [] \<Longrightarrow> stored (seed F now1 now2 db) = db"
  unfolding seed_def by (rule stored_unchanged) simp

lemma seed_empty:
  "commit_fault F = None \<Longrightarrow>
   seed F now1 now2 [] =
     (Inr (),
      [\<lparr>id' = 1, title = ''Hello SQLAlchemy'', author = ''Alice'',
        content = ''This is your first DB-backed post.'' @ [CHR 0x0A] @ ''It persists in SQLite.'',
        created_at = Some now1\<rparr>,
       \<lparr>id' = 2, title = ''Edit & Delete'', author = ''Bob'',
        content = ''You can edit or delete this post from the UI below.'',
        created_at = Some now2\<rparr>],
      [Commit, Close])"
  by (simp add: seed_def get_session_ok new_post_def next_id_def Let_def)

lemma api_requests_do_not_seed:
  "stored (api_list_posts F []) = []"
  "stored (api_get_post F i []) = []"
  "stored (api_update_post F i j []) = []"
  "stored (api_delete_post F i []) = []"
  "length (stored (api_create_post F now j [])) \<le> 1"
proof -
  show "stored (api_list_posts F []) = []"
    unfolding api_list_posts_def by (rule stored_empty) simp
  show "stored (api_get_post F i []) = []"
    unfolding api_get_post_def by (rule stored_empty) (simp add: session_get_empty)
  show "stored (api_update_post F i j []) = []"
    unfolding api_update_post_def Let_def by (rule stored_empty) (simp add: session_get_empty)
  show "stored (api_delete_post F i []) = []"
    unfolding api_delete_post_def by (rule stored_empty) (simp add: session_get_empty)
  have "length (stored (get_session F (\<lambda>s. (let p = new_post now t a c s
              in (Inr (jsonify (post_to_dict p) 201), s @ [p]))) [])) \<le> 1" for t a c
    by (rule stored_at_most_one) (simp add: Let_def)
  then show "length (stored (api_create_post F now j [])) \<le> 1"
    by (auto simp: api_create_post_def Let_def stored_def split: sum.splits)
qed

lemma page_requests_do_not_seed:
  "stored (index F []) = []"
  "stored (new_post_page []) = []"
  "stored (post_detail_page F i []) = []"
  "stored (edit_post_page F i []) = []"
  "stored (edit_post_action F i form []) = []"
  "stored (delete_post_action F i []) = []"
  "length (stored (new_post_action F now form [])) \<le> 1"
proof -
  show "stored (index F []) = []"
    unfolding index_def by (rule stored_empty) simp
  show "stored (new_post_page []) = []"
    by (simp add: new_post_page_def stored_def)
  show "stored (post_detail_page F i []) = []"
    unfolding post_detail_page_def by (rule stored_empty) (simp add: session_get_empty)
  show "stored (edit_post_page F i []) = []"
    unfolding edit_post_page_def by (rule stored_empty) (simp add: session_get_empty)
  have "stored (get_session F (\<lambda>s.
          (case session_get s i of
             Inl e \<Rightarrow> (Inl e, s)
           | Inr None \<Rightarrow> (Inl NotFound, s)
           | Inr (Some p) \<Rightarrow>
               (Inr (Redirect (''/posts/'' @ str_int i)),
                flush_dirty (p\<lparr>title := t, author := a, content := c\<rparr>) s))) []) = []"
    for t a c
    by (rule stored_empty) (simp add: session_get_empty)
  then show "stored (edit_post_action F i form []) = []"
    by (simp add: edit_post_action_def Let_def stored_def)
  have "stored (get_session F (\<lambda>s.
             (case session_get s i of
                Inl e \<Rightarrow> (Inl e, s)
              | Inr None \<Rightarrow> (Inr (), s)
              | Inr (Some p) \<Rightarrow> (Inr (), session_delete p s))) []) = []"
    by (rule stored_empty) (simp add: session_get_empty)
  then show "stored (delete_post_action F i []) = []"
    by (auto simp: delete_post_action_def stored_def split: prod.splits sum.splits)
  have "length (stored (get_session F (\<lambda>s. (let p = new_post now t a c s
              in (Inr (Redirect (''/posts/'' @ str_int (id' p))), s @ [p]))) [])) \<le> 1" for t a c
    by (rule stored_at_most_one) (simp add: Let_def)
  then show "length (stored (new_post_action F now form [])) \<le> 1"
    by (simp add: new_post_action_def Let_def stored_def)
qed

text \<open>
  C8. The seed block runs when the module is loaded, outside every handler.
  \<^item> On an empty table, with an engine that commits, it leaves exactly two rows, titled
    \<open>Hello SQLAlchemy\<close> and \<open>Edit & Delete\<close>, in that order.
  \<^item> On a non-empty table it leaves the table as it was.
  \<^item> No request seeds: on an empty table every handler leaves the table empty, but the
    two that create a post, which leave at most the one row of the request.
\<close>

theorem seed_if_empty:
  "(commit_fault F = None \<longrightarrow>
      stored (seed F now1 now2 []) =
        [\<lparr>id' = 1, title = ''Hello SQLAlchemy'', author = ''Alice'',
          content = ''This is your first DB-backed post.'' @ [CHR 0x0A] @ ''It persists in SQLite.'',
          created_at = Some now1\<rparr>,
         \<lparr>id' = 2, title = ''Edit & Delete'', author = ''Bob'',
          content = ''You can edit or delete this post from the UI below.'',
          created_at = Some now2\<rparr>]
    \<and> map title (stored (seed F now1 now2 [])) = [''Hello SQLAlchemy'', ''Edit & Delete''])
 \<and> (db \<noteq> [] \<longrightarrow> stored (seed F now1 now2 db) = db)
 \<and> stored (api_list_posts F []) = []
 \<and> stored (api_get_post F i []) = []
 \<and> stored (api_update_post F i j []) = []
 \<and> stored (api_delete_post F i []) = []
 \<and> length (stored (api_create_post F now j [])) \<le> 1
 \<and> stored (index F []) = []
 \<and> stored (new_post_page []) = []
 \<and> stored (post_detail_page F i []) = []
 \<and> stored (edit_post_page F i []) = []
 \<and> stored (edit_post_action F i form []) = []
 \<and> stored (delete_post_action F i []) = []
 \<and> length (stored (new_post_action F now form [])) \<le> 1"
proof (intro conjI impI)
  assume c: "commit_fault F = None"
  show "stored (seed F now1 now2 []) =
        [\<lparr>id' = 1, title = ''Hello SQLAlchemy'', author = ''Alice'',
          content = ''This is your first DB-backed post.'' @ [CHR 0x0A] @ ''It persists in SQLite.'',
          created_at = Some now1\<rparr>,
         \<lparr>id' = 2, title = ''Edit & Delete'', author = ''Bob'',
          content = ''You can edit or delete this post from the UI below.'',
          created_at = Some now2\<rparr>]"
    by (simp add: seed_empty [OF c] stored_def)
  show "map title (stored (seed F now1 now2 [])) = [''Hello SQLAlchemy'', ''Edit & Delete'']"
    by (simp add: seed_empty [OF c] stored_def)
next
  assume "db \<noteq> []"
  then show "stored (seed F now1 now2 db) = db" by (rule seed_non_empty)
qed (rule api_requests_do_not_seed page_requests_do_not_seed)+

theorem seed_if_empty_witness:
  "commit_fault no_faults = None
   \<and> map title (stored (seed no_faults (DateTime ''2024-01-01T00:00:00'')
        (DateTime ''2024-01-01T00:00:00'') [])) = [''Hello SQLAlchemy'', ''Edit & Delete'']
   \<and> map id' (stored (seed no_faults (DateTime ''2024-01-01T00:00:00'')
        (DateTime ''2024-01-01T00:00:00'') [])) = [1, 2]
   \<and> example_table \<noteq> []
   \<and> stored (seed no_faults (DateTime ''2024-01-01T00:00:00'')
        (DateTime ''2024-01-01T00:00:00'') example_table) = example_table"
  using seed_if_empty [of no_faults "DateTime ''2024-01-01T00:00:00''"
      "DateTime ''2024-01-01T00:00:00''" example_table]
  by (simp add: no_faults_def example_table_def)

section \<open>\<^verbatim>\<open>str()\<close> of a value that is not a string\<close>








section \<open>Non-string values in updates and creates\<close>






end
